theory Spec2Isabelle
  imports Main "HOL-Library.Sublist"
begin

section \<open>JavaScript values that the helpers read\<close>

text \<open>
  The helper functions read properties of untyped objects. A property that can
  be missing is a \<open>nullable\<close> value: \<open>Undefined\<close> is an absent property, \<open>Null\<close> is
  JavaScript's \<^verbatim>\<open>null\<close>, \<open>Present v\<close> is a value of the expected kind. On such values
  HOL's equality is JavaScript's \<^verbatim>\<open>===\<close>.

  A string is a list of code units; \<open>char\<close> has 256 values, so the strings of the model
  are the JavaScript strings whose code units are below 256 (Latin-1).
\<close>

datatype 'a nullable = Undefined | Null | Present 'a

text \<open>What a \<^verbatim>\<open>throw\<close> carries: \<^verbatim>\<open>new Error(message)\<close>, or the engine's TypeError for a
  property read on \<^verbatim>\<open>undefined\<close> or \<^verbatim>\<open>null\<close>.\<close>

datatype js_error = Error string | TypeError

text \<open>ToBoolean on a string that may be missing: the empty string is falsy, as
  \<^verbatim>\<open>undefined\<close> and \<^verbatim>\<open>null\<close> are.\<close>

fun truthy_string :: "string nullable \<Rightarrow> bool" where
  "truthy_string (Present s) = (s \<noteq> [])"
| "truthy_string Undefined = False"
| "truthy_string Null = False"

text \<open>ToString, as a template literal applies it to an interpolated value.\<close>

fun ToString :: "string nullable \<Rightarrow> string" where
  "ToString (Present s) = s"
| "ToString Undefined = ''undefined''"
| "ToString Null = ''null''"

text \<open>\<^verbatim>\<open>String.prototype.toLowerCase\<close> on code units below 256: A to Z (65 to 90) and the
  Latin-1 capitals 192 to 222, the multiplication sign 215 apart, move up by 32.\<close>

definition toLowerCase_unit :: "char \<Rightarrow> char" where
  "toLowerCase_unit c =
     (let n = (of_char c :: nat)
      in if (65 \<le> n \<and> n \<le> 90) \<or> (192 \<le> n \<and> n \<le> 222 \<and> n \<noteq> 215)
         then char_of (n + 32) else c)"

definition toLowerCase :: "string \<Rightarrow> string" where
  "toLowerCase s = map toLowerCase_unit s"

text \<open>An object literal is the list of its own properties. A read \<^verbatim>\<open>obj[key]\<close> finds an
  own property first and falls back to \<^verbatim>\<open>Object.prototype\<close>, from which every object
  literal inherits; \<open>Missing\<close> is the \<^verbatim>\<open>undefined\<close> of a key found in neither.\<close>

type_synonym 'v object = "(string \<times> 'v) list"

datatype 'v got = Missing | Own 'v | Inherited string

definition Object_prototype_keys :: "string list" where
  "Object_prototype_keys =
     [''constructor'', ''__defineGetter__'', ''__defineSetter__'', ''hasOwnProperty'',
      ''__lookupGetter__'', ''__lookupSetter__'', ''isPrototypeOf'',
      ''propertyIsEnumerable'', ''toString'', ''valueOf'', ''__proto__'',
      ''toLocaleString'']"

definition Get :: "'v object \<Rightarrow> string \<Rightarrow> 'v got" where
  "Get obj key =
     (case map_of obj key of
        Some v \<Rightarrow> Own v
      | None \<Rightarrow> if key \<in> set Object_prototype_keys then Inherited key else Missing)"

text \<open>ToBoolean of a value read from an object of model constructors: a constructor and
  every member of \<^verbatim>\<open>Object.prototype\<close> is an object or a function, hence truthy.\<close>

fun truthy_got :: "'v got \<Rightarrow> bool" where
  "truthy_got Missing = False"
| "truthy_got (Own v) = True"
| "truthy_got (Inherited k) = True"

text \<open>\<^verbatim>\<open>Array.prototype.filter\<close>: the elements are visited in index order and the ones
  the callback accepts are appended to the result array.\<close>

fun array_filter_from :: "('a \<Rightarrow> bool) \<Rightarrow> 'a list \<Rightarrow> 'a list \<Rightarrow> 'a list" where
  "array_filter_from callback [] result = result"
| "array_filter_from callback (x # xs) result =
     array_filter_from callback xs (if callback x then result @ [x] else result)"

definition array_filter :: "('a \<Rightarrow> bool) \<Rightarrow> 'a list \<Rightarrow> 'a list" where
  "array_filter callback xs = array_filter_from callback xs []"


section \<open>BBID validation\<close>

text \<open>
  The terms that the regular expression literal \<^verbatim>\<open>_bbidRegex\<close> is made of: the
  assertions \<^verbatim>\<open>^\<close> and \<^verbatim>\<open>$\<close> (the literal has no flags, so they are the start and the
  end of the input), a character class as a list of code-unit ranges, a single
  character, and a term repeated \<^verbatim>\<open>{n}\<close> times.
\<close>

datatype regex_term =
    AssertStart
  | AssertEnd
  | CharClass "(char \<times> char) list"
  | Literal char
  | Repeat nat regex_term

definition in_class :: "(char \<times> char) list \<Rightarrow> char \<Rightarrow> bool" where
  "in_class ranges c =
     list_ex (\<lambda>(lo, hi). (of_char lo :: nat) \<le> of_char c \<and> (of_char c :: nat) \<le> of_char hi)
       ranges"

text \<open>Matching one term of the pattern against the input at end index \<open>e\<close>: the new end
  index, or \<open>None\<close> for failure. Every quantifier of the literal is an exact count, so a
  term matches in at most one way.\<close>

fun repeat_matcher :: "nat \<Rightarrow> (nat \<Rightarrow> nat option) \<Rightarrow> nat \<Rightarrow> nat option" where
  "repeat_matcher 0 m e = Some e"
| "repeat_matcher (Suc n) m e =
     (case m e of
        None \<Rightarrow> None
      | Some e' \<Rightarrow> repeat_matcher n m e')"

fun match_term :: "regex_term \<Rightarrow> string \<Rightarrow> nat \<Rightarrow> nat option" where
  "match_term AssertStart input e = (if e = 0 then Some e else None)"
| "match_term AssertEnd input e = (if e = length input then Some e else None)"
| "match_term (CharClass ranges) input e =
     (if e < length input \<and> in_class ranges (input ! e) then Some (e + 1) else None)"
| "match_term (Literal c) input e =
     (if e < length input \<and> input ! e = c then Some (e + 1) else None)"
| "match_term (Repeat n t) input e = repeat_matcher n (match_term t input) e"

fun match_terms :: "regex_term list \<Rightarrow> string \<Rightarrow> nat \<Rightarrow> nat option" where
  "match_terms [] input e = Some e"
| "match_terms (t # ts) input e =
     (case match_term t input e of
        None \<Rightarrow> None
      | Some e' \<Rightarrow> match_terms ts input e')"

text \<open>The loop of RegExpBuiltinExec for a pattern without the global and sticky flags:
  the match is tried at \<open>lastIndex\<close>, and on failure at the next index, until
  \<open>lastIndex\<close> passes the end of the input. The outer \<open>option\<close> is \<open>None\<close> when the loop
  does not return; the inner one is the end index of the match, \<open>None\<close> for
  \<^verbatim>\<open>null\<close>.\<close>

partial_function (option) RegExpBuiltinExec ::
  "regex_term list \<Rightarrow> string \<Rightarrow> nat \<Rightarrow> nat option option" where
  "RegExpBuiltinExec pattern input lastIndex =
     (if lastIndex > length input then Some None
      else case match_terms pattern input lastIndex of
             None \<Rightarrow> RegExpBuiltinExec pattern input (lastIndex + 1)
           | Some e \<Rightarrow> Some (Some e))"

declare RegExpBuiltinExec.simps [code]

text \<open>\<^verbatim>\<open>RegExp.prototype.test\<close>: whether the exec result is not \<^verbatim>\<open>null\<close>.\<close>

definition RegExp_test :: "regex_term list \<Rightarrow> string \<Rightarrow> bool option" where
  "RegExp_test pattern input =
     map_option (\<lambda>r. r \<noteq> None) (RegExpBuiltinExec pattern input 0)"

definition hex_class :: regex_term where
  "hex_class = CharClass [(CHR ''0'', CHR ''9''), (CHR ''a'', CHR ''f'')]"

definition bbidRegex :: "regex_term list" where
  "bbidRegex =
     [AssertStart,
      Repeat 8 hex_class, Literal (CHR ''-''),
      Repeat 4 hex_class, Literal (CHR ''-''),
      Repeat 4 hex_class, Literal (CHR ''-''),
      Repeat 4 hex_class, Literal (CHR ''-''),
      Repeat 12 hex_class,
      AssertEnd]"

definition isValidBBID :: "string \<Rightarrow> bool option" where
  "isValidBBID bbid = RegExp_test bbidRegex bbid"

text \<open>The format in the words of the specification: 8 lowercase hexadecimal characters,
  a dash, 4 hexadecimal characters, a dash, 4 more, a dash, 4 more, a dash, and 12
  hexadecimal characters; nothing before and nothing after.\<close>

definition lowercase_hex :: "char \<Rightarrow> bool" where
  "lowercase_hex c = (c \<in> set ''0123456789abcdef'')"

definition hex_group :: "nat \<Rightarrow> string \<Rightarrow> bool" where
  "hex_group n g = (length g = n \<and> list_all lowercase_hex g)"

definition bbid_format :: "string \<Rightarrow> bool" where
  "bbid_format s =
     (\<exists>a b c d e.
        hex_group 8 a \<and> hex_group 4 b \<and> hex_group 4 c \<and> hex_group 4 d \<and> hex_group 12 e \<and>
        s = a @ ''-'' @ b @ ''-'' @ c @ ''-'' @ d @ ''-'' @ e)"

text \<open>The same format read by position, which can be evaluated on a given string.\<close>

definition bbid_positions :: "string \<Rightarrow> bool" where
  "bbid_positions s =
     (length s = 36 \<and>
      list_all lowercase_hex (take 8 s) \<and> s ! 8 = CHR ''-'' \<and>
      list_all lowercase_hex (take 4 (drop 9 s)) \<and> s ! 13 = CHR ''-'' \<and>
      list_all lowercase_hex (take 4 (drop 14 s)) \<and> s ! 18 = CHR ''-'' \<and>
      list_all lowercase_hex (take 4 (drop 19 s)) \<and> s ! 23 = CHR ''-'' \<and>
      list_all lowercase_hex (take 12 (drop 24 s)))"


section \<open>Model lookup by type name\<close>

text \<open>The ORM handle of bookbrainz-data: a Bookshelf model constructor under each of
  the names that \<^verbatim>\<open>getEntityModels\<close> and \<^verbatim>\<open>getImportModels\<close> destructure.\<close>

record 'm orm =
  Creator :: 'm
  Edition :: 'm
  Publication :: 'm
  Publisher :: 'm
  Work :: 'm
  CreatorImport :: 'm
  EditionImport :: 'm
  PublicationImport :: 'm
  PublisherImport :: 'm
  WorkImport :: 'm

definition getEntityModels :: "'m orm \<Rightarrow> 'm object" where
  "getEntityModels orm =
     [(''Creator'', Creator orm), (''Edition'', Edition orm),
      (''Publication'', Publication orm), (''Publisher'', Publisher orm),
      (''Work'', Work orm)]"

definition getImportModels :: "'m orm \<Rightarrow> 'm object" where
  "getImportModels orm =
     [(''CreatorImport'', CreatorImport orm), (''EditionImport'', EditionImport orm),
      (''PublicationImport'', PublicationImport orm),
      (''PublisherImport'', PublisherImport orm), (''WorkImport'', WorkImport orm)]"

definition getEntityModelByType :: "'m orm \<Rightarrow> string \<Rightarrow> js_error + 'm got" where
  "getEntityModelByType orm type =
     (let entityModels = getEntityModels orm
      in if \<not> truthy_got (Get entityModels type)
         then Inl (Error (''Unrecognized entity type: '' @ [CHR 0x27] @ type @ [CHR 0x27]))
         else Inr (Get entityModels type))"

definition getImportModelByType :: "'m orm \<Rightarrow> string \<Rightarrow> js_error + 'm got" where
  "getImportModelByType orm type =
     (let importModels = getImportModels orm
      in if \<not> truthy_got (Get importModels type)
         then Inl (Error ''Unrecognized import type'')
         else Inr (Get importModels type))"


section \<open>The data model\<close>

text \<open>
  An identifier type, an identifier, an identifier set, an alias and an entity, with
  the properties that the helpers read. The properties that the code itself tests
  before use (\<^verbatim>\<open>identifierSet\<close>, \<^verbatim>\<open>defaultAlias\<close>, the \<^verbatim>\<open>name\<close> of an alias) and the two
  that \<^verbatim>\<open>getEntityLink\<close> formats (\<^verbatim>\<open>type\<close>, \<^verbatim>\<open>bbid\<close>) can be missing. An identifier set
  that is there has its array of identifiers, and an identifier has its type, as the
  ORM loads them. Ids are the integer keys of the database.
\<close>

record identifierType =
  identifierType_id :: int
  entityType :: string

record "identifier" =
  identifier_type :: identifierType

record identifierSet =
  identifiers :: "identifier list"

record "alias" =
  name :: "string nullable"

record entity =
  type :: "string nullable"
  bbid :: "string nullable"
  defaultAlias :: "alias nullable"
  identifierSet :: "identifierSet nullable"


section \<open>Entity links\<close>

text \<open>The template literal reads \<^verbatim>\<open>entity.type.toLowerCase()\<close> first, which throws a
  TypeError when the type is missing, and then interpolates the bbid.\<close>

definition getEntityLink :: "entity \<Rightarrow> js_error + string" where
  "getEntityLink entity =
     (case type entity of
        Present t \<Rightarrow> Inr (''/'' @ toLowerCase t @ ''/'' @ ToString (bbid entity))
      | Undefined \<Rightarrow> Inl TypeError
      | Null \<Rightarrow> Inl TypeError)"

text \<open>What \<^verbatim>\<open>EntityDeletionForm.render\<close> computes from \<^verbatim>\<open>this.props.entity\<close> before it
  builds the markup: the two instance fields, and the \<^verbatim>\<open>href\<close> of the Cancel button.\<close>

record deletionFormUrls =
  entityUrl :: string
  deleteUrl :: string
  cancelHref :: string

definition EntityDeletionForm_render :: "entity \<Rightarrow> js_error + deletionFormUrls" where
  "EntityDeletionForm_render entity =
     (case type entity of
        Present t \<Rightarrow>
          (let entityUrl = ''/'' @ toLowerCase t @ ''/'' @ ToString (bbid entity);
               deleteUrl = entityUrl @ ''/delete/handler''
           in Inr \<lparr>entityUrl = entityUrl, deleteUrl = deleteUrl, cancelHref = entityUrl\<rparr>)
      | Undefined \<Rightarrow> Inl TypeError
      | Null \<Rightarrow> Inl TypeError)"


section \<open>Identifier types of an entity\<close>

definition filterIdentifierTypesByEntityType ::
  "identifierType list \<Rightarrow> string nullable \<Rightarrow> identifierType list" where
  "filterIdentifierTypesByEntityType identifierTypes entityType' =
     array_filter (\<lambda>t. Present (entityType t) = entityType') identifierTypes"

text \<open>The \<^verbatim>\<open>for ... of\<close> loop that fills the Set \<^verbatim>\<open>typesOnEntity\<close>.\<close>

fun add_types :: "identifier list \<Rightarrow> int set \<Rightarrow> int set" where
  "add_types [] typesOnEntity = typesOnEntity"
| "add_types (i # rest) typesOnEntity =
     add_types rest (insert (identifierType_id (identifier_type i)) typesOnEntity)"

definition filterIdentifierTypesByEntity ::
  "identifierType list \<Rightarrow> entity \<Rightarrow> identifierType list" where
  "filterIdentifierTypesByEntity identifierTypes entity =
     (case identifierSet entity of
        Present iset \<Rightarrow>
          if length (identifiers iset) < 1
          then filterIdentifierTypesByEntityType identifierTypes (type entity)
          else (let typesOnEntity = add_types (identifiers iset) {}
                in array_filter
                     (\<lambda>t. Present (entityType t) = type entity
                          \<or> identifierType_id t \<in> typesOnEntity)
                     identifierTypes)
      | Undefined \<Rightarrow> filterIdentifierTypesByEntityType identifierTypes (type entity)
      | Null \<Rightarrow> filterIdentifierTypesByEntityType identifierTypes (type entity))"

text \<open>The two notions of the specification: an entity without identifiers, and the
  identifier-type ids attached to the identifiers an entity has.\<close>

definition has_no_identifiers :: "entity \<Rightarrow> bool" where
  "has_no_identifiers entity =
     (case identifierSet entity of
        Present iset \<Rightarrow> identifiers iset = []
      | Undefined \<Rightarrow> True
      | Null \<Rightarrow> True)"

definition attached_type_ids :: "entity \<Rightarrow> int set" where
  "attached_type_ids entity =
     (case identifierSet entity of
        Present iset \<Rightarrow> set (map (\<lambda>i. identifierType_id (identifier_type i)) (identifiers iset))
      | Undefined \<Rightarrow> {}
      | Null \<Rightarrow> {})"


section \<open>Page titles\<close>

definition createEntityPageTitle ::
  "entity nullable \<Rightarrow> string \<Rightarrow> (string nullable object \<Rightarrow> string) \<Rightarrow> string" where
  "createEntityPageTitle entity titleForUnnamed templateForNamed =
     (let title = titleForUnnamed
      in case entity of
           Present e \<Rightarrow>
             (case defaultAlias e of
                Present a \<Rightarrow>
                  if truthy_string (name a)
                  then templateForNamed [(''name'', name a)]
                  else title
              | Undefined \<Rightarrow> title
              | Null \<Rightarrow> title)
         | Undefined \<Rightarrow> title
         | Null \<Rightarrow> title)"

text \<open>The populated display name of the specification: the entity is there, it has a
  default alias, and the alias has a name that is not the empty string.\<close>

definition display_name :: "entity nullable \<Rightarrow> string option" where
  "display_name entity =
     (case entity of
        Present e \<Rightarrow>
          (case defaultAlias e of
             Present a \<Rightarrow>
               (case name a of
                  Present n \<Rightarrow> if n = [] then None else Some n
                | Undefined \<Rightarrow> None
                | Null \<Rightarrow> None)
           | Undefined \<Rightarrow> None
           | Null \<Rightarrow> None)
      | Undefined \<Rightarrow> None
      | Null \<Rightarrow> None)"


section \<open>Library functions\<close>

lemma array_filter_from_append:
  "array_filter_from callback xs result = result @ filter callback xs"
  by (induction xs arbitrary: result) simp_all

lemma array_filter_filter: "array_filter callback xs = filter callback xs"
  by (simp add: array_filter_def array_filter_from_append)

lemma count_list_filter_le: "count_list (filter P xs) x \<le> count_list xs x"
  by (induction xs) auto

lemma toLowerCase_Work: "toLowerCase ''Work'' = ''work''"
  by code_simp


section \<open>The regular expression of BBIDs\<close>

lemma char_eq_code: "(c = d) = ((of_char c :: nat) = of_char d)"
  by simp

lemma in_hex_class:
  "in_class [(CHR ''0'', CHR ''9''), (CHR ''a'', CHR ''f'')] c = lowercase_hex c"
proof -
  define n where "n = (of_char c :: nat)"
  have "lowercase_hex c =
          (n \<in> {48, 49, 50, 51, 52, 53, 54, 55, 56, 57, 97, 98, 99, 100, 101, 102})"
    unfolding lowercase_hex_def n_def
    by (simp add: char_eq_code [of c])
  also have "\<dots> = ((48 \<le> n \<and> n \<le> 57) \<or> (97 \<le> n \<and> n \<le> 102))"
    unfolding insert_iff empty_iff by presburger
  finally show ?thesis
    by (simp add: in_class_def n_def)
qed

lemma hex_class_fun:
  "in_class [(CHR ''0'', CHR ''9''), (CHR ''a'', CHR ''f'')] = lowercase_hex"
  by (rule ext) (rule in_hex_class)

text \<open>A class repeated \<open>n\<close> times matches at \<open>e\<close> exactly when the next \<open>n\<close> code units
  exist and are all in the class.\<close>

lemma repeat_class:
  "e \<le> length input \<Longrightarrow>
   repeat_matcher n (match_term (CharClass rs) input) e =
     (if e + n \<le> length input \<and> list_all (in_class rs) (take n (drop e input))
      then Some (e + n) else None)"
proof (induction n arbitrary: e)
  case 0
  then show ?case by simp
next
  case (Suc n)
  show ?case
  proof (cases "e < length input")
    case True
    then have "drop e input = input ! e # drop (Suc e) input"
      by (simp add: Cons_nth_drop_Suc)
    then have "take (Suc n) (drop e input) = input ! e # take n (drop (Suc e) input)"
      by simp
    moreover from True have "Suc e \<le> length input"
      by simp
    ultimately show ?thesis
      using True Suc.IH [of "Suc e"] by auto
  next
    case False
    then show ?thesis by simp
  qed
qed

text \<open>The loop of RegExpBuiltinExec returns for every pattern, input and start index:
  the distance of \<open>lastIndex\<close> to the end of the input shrinks with every round.\<close>

lemma RegExpBuiltinExec_returns:
  "\<exists>r. RegExpBuiltinExec pattern input lastIndex = Some r"
proof (induction "Suc (length input) - lastIndex" arbitrary: lastIndex)
  case 0
  then have "lastIndex > length input" by simp
  then show ?case by (subst RegExpBuiltinExec.simps) simp
next
  case (Suc k)
  then have "\<exists>r. RegExpBuiltinExec pattern input (lastIndex + 1) = Some r"
    by simp
  then show ?case
    by (subst RegExpBuiltinExec.simps) (simp split: option.split)
qed

text \<open>A pattern that starts with \<^verbatim>\<open>^\<close> fails at every index but 0, so the loop returns
  what the match at index 0 gives.\<close>

lemma RegExpBuiltinExec_anchored_later:
  "0 < lastIndex \<Longrightarrow> RegExpBuiltinExec (AssertStart # ts) input lastIndex = Some None"
proof (induction "Suc (length input) - lastIndex" arbitrary: lastIndex)
  case 0
  then have "lastIndex > length input" by simp
  then show ?case by (subst RegExpBuiltinExec.simps) simp
next
  case (Suc k)
  then have "RegExpBuiltinExec (AssertStart # ts) input (lastIndex + 1) = Some None"
    by simp
  with Suc.prems show ?case
    by (subst RegExpBuiltinExec.simps) simp
qed

lemma RegExpBuiltinExec_anchored:
  "RegExpBuiltinExec (AssertStart # ts) input 0 =
     Some (match_terms (AssertStart # ts) input 0)"
  using RegExpBuiltinExec_anchored_later [of 1 ts input]
  by (subst RegExpBuiltinExec.simps) (simp split: option.split)

lemma isValidBBID_match: "isValidBBID s = Some (match_terms bbidRegex s 0 \<noteq> None)"
  by (simp add: isValidBBID_def RegExp_test_def bbidRegex_def RegExpBuiltinExec_anchored)

lemma match_bbid_positions: "(match_terms bbidRegex s 0 \<noteq> None) = bbid_positions s"
  unfolding bbidRegex_def hex_class_def bbid_positions_def
  by (simp add: repeat_class hex_class_fun)

text \<open>The format in words and the format by position are the same set of strings.\<close>

lemma bbid_format_positions: "bbid_format s = bbid_positions s"
proof
  assume "bbid_format s"
  then obtain a b c d e where
    g: "hex_group 8 a" "hex_group 4 b" "hex_group 4 c" "hex_group 4 d" "hex_group 12 e"
    and s: "s = a @ ''-'' @ b @ ''-'' @ c @ ''-'' @ d @ ''-'' @ e"
    unfolding bbid_format_def by blast
  from g show "bbid_positions s"
    unfolding bbid_positions_def s hex_group_def
    by (simp add: nth_append)
next
  assume p: "bbid_positions s"
  let ?a = "take 8 s" and ?b = "take 4 (drop 9 s)" and ?c = "take 4 (drop 14 s)"
    and ?d = "take 4 (drop 19 s)" and ?e = "drop 24 s"
  from p have len: "length s = 36"
    by (simp add: bbid_positions_def)
  have split: "\<And>i. i < length s \<Longrightarrow> drop i s = s ! i # drop (Suc i) s"
    by (simp add: Cons_nth_drop_Suc)
  have "s = ?a @ drop 8 s"
    by (rule append_take_drop_id [symmetric])
  also have "drop 8 s = CHR ''-'' # drop 9 s"
    using split [of 8] p len by (simp add: bbid_positions_def)
  also have "drop 9 s = ?b @ drop 4 (drop 9 s)"
    by (rule append_take_drop_id [symmetric])
  also have "drop 4 (drop 9 s) = CHR ''-'' # drop 14 s"
    using split [of 13] p len by (simp add: bbid_positions_def)
  also have "drop 14 s = ?c @ drop 4 (drop 14 s)"
    by (rule append_take_drop_id [symmetric])
  also have "drop 4 (drop 14 s) = CHR ''-'' # drop 19 s"
    using split [of 18] p len by (simp add: bbid_positions_def)
  also have "drop 19 s = ?d @ drop 4 (drop 19 s)"
    by (rule append_take_drop_id [symmetric])
  also have "drop 4 (drop 19 s) = CHR ''-'' # ?e"
    using split [of 23] p len by (simp add: bbid_positions_def)
  finally have "s = ?a @ ''-'' @ ?b @ ''-'' @ ?c @ ''-'' @ ?d @ ''-'' @ ?e"
    by simp
  moreover from p len have "hex_group 8 ?a" "hex_group 4 ?b" "hex_group 4 ?c"
    "hex_group 4 ?d" "hex_group 12 ?e"
    by (simp_all add: bbid_positions_def hex_group_def)
  ultimately show "bbid_format s"
    unfolding bbid_format_def by blast
qed

text \<open>The validator on strings of each kind the specification names: a well-formed
  BBID, uppercase hexadecimal digits, a dash out of place, a missing character, and a
  line break after a well-formed BBID.\<close>

lemma isValidBBID_examples:
  "isValidBBID ''123e4567-e89b-12d3-a456-426614174000'' = Some True"
  "isValidBBID ''123E4567-E89B-12D3-A456-426614174000'' = Some False"
  "isValidBBID ''123e4567e-89b-12d3-a456-426614174000'' = Some False"
  "isValidBBID ''123e4567-e89b-12d3-a456-42661417400'' = Some False"
  "isValidBBID ''123e4567-e89b-12d3-a456-426614174000\<newline>'' = Some False"
  by code_simp+


section \<open>BBID validation: claims C1 and C8\<close>

text \<open>
  Claim C1. For every string \<open>s\<close>, \<^verbatim>\<open>isValidBBID(s)\<close> returns true if and only if \<open>s\<close> is
  8 lowercase hexadecimal characters, a dash, 4 hexadecimal characters, a dash, 4 more,
  a dash, 4 more, a dash and 12 hexadecimal characters; every other string yields
  false.
\<close>

theorem isValidBBID_iff_format: "isValidBBID s = Some (bbid_format s)"
  by (simp only: isValidBBID_match match_bbid_positions bbid_format_positions)

theorem isValidBBID_iff_format_witness:
  "bbid_format ''123e4567-e89b-12d3-a456-426614174000''
   \<and> isValidBBID ''123e4567-e89b-12d3-a456-426614174000'' = Some True"
proof -
  have "bbid_format ''123e4567-e89b-12d3-a456-426614174000''"
    by (simp add: bbid_format_positions bbid_positions_def lowercase_hex_def)
  with isValidBBID_iff_format [of "''123e4567-e89b-12d3-a456-426614174000''"]
  show ?thesis by simp
qed

text \<open>
  Claim C8. \<^verbatim>\<open>isValidBBID\<close> is total on strings: for every string the call returns, and
  what it returns is a boolean; a malformed identifier is reported as the boolean false
  and in no other way.
\<close>

theorem isValidBBID_total:
  "(\<exists>b. isValidBBID s = Some b) \<and> (\<not> bbid_format s \<longrightarrow> isValidBBID s = Some False)"
proof
  from RegExpBuiltinExec_returns obtain r where "RegExpBuiltinExec bbidRegex s 0 = Some r"
    by blast
  then show "\<exists>b. isValidBBID s = Some b"
    by (simp add: isValidBBID_def RegExp_test_def)
next
  show "\<not> bbid_format s \<longrightarrow> isValidBBID s = Some False"
    by (simp only: isValidBBID_match match_bbid_positions bbid_format_positions) simp
qed

theorem isValidBBID_total_witness:
  "\<not> bbid_format ''123E4567-e89b-12d3-a456-426614174000''
   \<and> isValidBBID ''123E4567-e89b-12d3-a456-426614174000'' = Some False"
proof -
  have "\<not> bbid_format ''123E4567-e89b-12d3-a456-426614174000''"
    by (simp add: bbid_format_positions bbid_positions_def lowercase_hex_def)
  with isValidBBID_total [of "''123E4567-e89b-12d3-a456-426614174000''"]
  show ?thesis by simp
qed


section \<open>Model lookup: claims C2 and C4\<close>

text \<open>On the five names of each registry the lookup returns the handle of the ORM, and
  on a name that is neither one of the five nor a property of \<^verbatim>\<open>Object.prototype\<close> it
  throws the error of its registry.\<close>

lemma getEntityModelByType_kinds:
  "getEntityModelByType orm ''Creator'' = Inr (Own (Creator orm))"
  "getEntityModelByType orm ''Edition'' = Inr (Own (Edition orm))"
  "getEntityModelByType orm ''Publication'' = Inr (Own (Publication orm))"
  "getEntityModelByType orm ''Publisher'' = Inr (Own (Publisher orm))"
  "getEntityModelByType orm ''Work'' = Inr (Own (Work orm))"
  by (simp_all add: getEntityModelByType_def getEntityModels_def Get_def)

lemma getEntityModelByType_unrecognized:
  "t \<notin> set [''Creator'', ''Edition'', ''Publication'', ''Publisher'', ''Work''] \<Longrightarrow>
   t \<notin> set Object_prototype_keys \<Longrightarrow>
   getEntityModelByType orm t =
     Inl (Error (''Unrecognized entity type: '' @ [CHR 0x27] @ t @ [CHR 0x27]))"
  by (simp add: getEntityModelByType_def getEntityModels_def Get_def)

lemma getImportModelByType_kinds:
  "getImportModelByType orm ''CreatorImport'' = Inr (Own (CreatorImport orm))"
  "getImportModelByType orm ''EditionImport'' = Inr (Own (EditionImport orm))"
  "getImportModelByType orm ''PublicationImport'' = Inr (Own (PublicationImport orm))"
  "getImportModelByType orm ''PublisherImport'' = Inr (Own (PublisherImport orm))"
  "getImportModelByType orm ''WorkImport'' = Inr (Own (WorkImport orm))"
  by (simp_all add: getImportModelByType_def getImportModels_def Get_def)

lemma getImportModelByType_unrecognized:
  "t \<notin> set [''CreatorImport'', ''EditionImport'', ''PublicationImport'',
              ''PublisherImport'', ''WorkImport''] \<Longrightarrow>
   t \<notin> set Object_prototype_keys \<Longrightarrow>
   getImportModelByType orm t = Inl (Error ''Unrecognized import type'')"
  by (simp add: getImportModelByType_def getImportModels_def Get_def)

text \<open>On a property name of \<^verbatim>\<open>Object.prototype\<close> the lookups return the inherited
  member instead of throwing.\<close>

lemma getEntityModelByType_inherited:
  "t \<in> set Object_prototype_keys \<Longrightarrow> getEntityModelByType orm t = Inr (Inherited t)"
  by (auto simp add: getEntityModelByType_def getEntityModels_def Get_def
      Object_prototype_keys_def)

lemma getImportModelByType_inherited:
  "t \<in> set Object_prototype_keys \<Longrightarrow> getImportModelByType orm t = Inr (Inherited t)"
  by (auto simp add: getImportModelByType_def getImportModels_def Get_def
      Object_prototype_keys_def)

text \<open>Neither lookup ever returns \<^verbatim>\<open>undefined\<close>.\<close>

lemma getEntityModelByType_not_Missing: "getEntityModelByType orm t \<noteq> Inr Missing"
  by (auto simp add: getEntityModelByType_def Let_def)

lemma getImportModelByType_not_Missing: "getImportModelByType orm t \<noteq> Inr Missing"
  by (auto simp add: getImportModelByType_def Let_def)

text \<open>The two registries throw errors with different messages, whatever the names
  looked up.\<close>

lemma lookup_errors_distinct:
  "getEntityModelByType orm t = Inl e \<Longrightarrow> getImportModelByType orm' t' = Inl e' \<Longrightarrow> e \<noteq> e'"
  by (auto simp add: getEntityModelByType_def getImportModelByType_def Let_def
      split: if_splits)

text \<open>
  Claim C2. \<^verbatim>\<open>getEntityModelByType\<close> returns the model of the ORM for each of the five
  entity kinds and fails with the unrecognized-entity-type error for every other name.
  The code does not: \<^verbatim>\<open>constructor\<close> is none of the five kinds, the object literal
  built by \<^verbatim>\<open>getEntityModels\<close> inherits a property of that name from
  \<^verbatim>\<open>Object.prototype\<close>, the guard finds it truthy, and the call returns it.
\<close>

theorem getEntityModelByType_constructor:
  "getEntityModelByType orm ''constructor'' = Inr (Inherited ''constructor'')"
  by (simp add: getEntityModelByType_def getEntityModels_def Get_def
      Object_prototype_keys_def)

text \<open>
  Claim C4. \<^verbatim>\<open>getImportModelByType\<close> returns the import model of the ORM for each of the
  five import kinds and fails with the unrecognized-import-type error, which differs
  from the error of the entity lookup, for every other name. The code does not fail on
  \<^verbatim>\<open>toString\<close>: the name is no import kind, and the call returns the function that the
  object literal built by \<^verbatim>\<open>getImportModels\<close> inherits from \<^verbatim>\<open>Object.prototype\<close>.
\<close>

theorem getImportModelByType_toString:
  "getImportModelByType orm ''toString'' = Inr (Inherited ''toString'')"
  by (simp add: getImportModelByType_def getImportModels_def Get_def
      Object_prototype_keys_def)


section \<open>Identifier types: claims C5 and C3\<close>

lemma add_types_set:
  "add_types ids acc = acc \<union> set (map (\<lambda>i. identifierType_id (identifier_type i)) ids)"
  by (induction ids arbitrary: acc) auto

text \<open>
  Claim C5. For every list of identifier types and every entity-type string,
  \<^verbatim>\<open>filterIdentifierTypesByEntityType\<close> returns the elements of the list whose
  \<^verbatim>\<open>entityType\<close> is that string, all of them and no others, in the order of the list.
\<close>

theorem filterIdentifierTypesByEntityType_subsequence:
  "filterIdentifierTypesByEntityType identifierTypes (Present et) =
     filter (\<lambda>t. entityType t = et) identifierTypes
   \<and> subseq (filterIdentifierTypesByEntityType identifierTypes (Present et)) identifierTypes"
  by (simp add: filterIdentifierTypesByEntityType_def array_filter_filter)

theorem filterIdentifierTypesByEntityType_subsequence_witness:
  "filterIdentifierTypesByEntityType
     [\<lparr>identifierType_id = 1, entityType = ''Work''\<rparr>,
      \<lparr>identifierType_id = 2, entityType = ''Creator''\<rparr>] (Present ''Work'')
   = [\<lparr>identifierType_id = 1, entityType = ''Work''\<rparr>]"
  using filterIdentifierTypesByEntityType_subsequence
    [of "[\<lparr>identifierType_id = 1, entityType = ''Work''\<rparr>,
          \<lparr>identifierType_id = 2, entityType = ''Creator''\<rparr>]" "''Work''"]
  by simp

text \<open>
  Claim C3. For an entity without identifiers, \<^verbatim>\<open>filterIdentifierTypesByEntity\<close> returns
  what \<^verbatim>\<open>filterIdentifierTypesByEntityType\<close> returns for the type of the entity. For any
  other entity it returns the identifier types whose \<^verbatim>\<open>entityType\<close> is the type of the
  entity or whose id is the id of the type of one of the entity's identifiers. The
  result keeps the order of the input, and no element occurs in it more often than in
  the input.
\<close>

theorem filterIdentifierTypesByEntity_result:
  "filterIdentifierTypesByEntity identifierTypes entity =
     (if has_no_identifiers entity
      then filterIdentifierTypesByEntityType identifierTypes (type entity)
      else filter (\<lambda>t. Present (entityType t) = type entity
                       \<or> identifierType_id t \<in> attached_type_ids entity) identifierTypes)
   \<and> subseq (filterIdentifierTypesByEntity identifierTypes entity) identifierTypes
   \<and> count_list (filterIdentifierTypesByEntity identifierTypes entity) t
       \<le> count_list identifierTypes t"
  by (cases "identifierSet entity")
     (simp_all add: filterIdentifierTypesByEntity_def has_no_identifiers_def
        attached_type_ids_def filterIdentifierTypesByEntityType_def array_filter_filter
        add_types_set count_list_filter_le)

theorem filterIdentifierTypesByEntity_result_witness:
  "filterIdentifierTypesByEntity
     [\<lparr>identifierType_id = 9, entityType = ''Creator''\<rparr>,
      \<lparr>identifierType_id = 2, entityType = ''Work''\<rparr>,
      \<lparr>identifierType_id = 3, entityType = ''Edition''\<rparr>]
     \<lparr>type = Present ''Work'', bbid = Undefined, defaultAlias = Undefined,
      identifierSet = Present \<lparr>identifiers =
        [\<lparr>identifier_type = \<lparr>identifierType_id = 9, entityType = ''Creator''\<rparr>\<rparr>]\<rparr>\<rparr>
   = [\<lparr>identifierType_id = 9, entityType = ''Creator''\<rparr>,
      \<lparr>identifierType_id = 2, entityType = ''Work''\<rparr>]"
  using filterIdentifierTypesByEntity_result
    [of "[\<lparr>identifierType_id = 9, entityType = ''Creator''\<rparr>,
          \<lparr>identifierType_id = 2, entityType = ''Work''\<rparr>,
          \<lparr>identifierType_id = 3, entityType = ''Edition''\<rparr>]"
        "\<lparr>type = Present ''Work'', bbid = Undefined, defaultAlias = Undefined,
          identifierSet = Present \<lparr>identifiers =
            [\<lparr>identifier_type = \<lparr>identifierType_id = 9, entityType = ''Creator''\<rparr>\<rparr>]\<rparr>\<rparr>"]
  by (simp add: has_no_identifiers_def attached_type_ids_def)


section \<open>Page titles: claims C6 and C9\<close>

text \<open>
  Claim C6. \<^verbatim>\<open>createEntityPageTitle\<close> returns the fallback title when the entity is
  absent or has no populated display name, and otherwise the result of the template
  function on the object whose one property \<^verbatim>\<open>name\<close> is the name of the default alias.
\<close>

theorem createEntityPageTitle_result:
  "createEntityPageTitle entity titleForUnnamed templateForNamed =
     (case display_name entity of
        None \<Rightarrow> titleForUnnamed
      | Some n \<Rightarrow> templateForNamed [(''name'', Present n)])"
  by (simp add: createEntityPageTitle_def display_name_def split: nullable.splits)

theorem createEntityPageTitle_result_witness:
  "createEntityPageTitle
     (Present \<lparr>type = Undefined, bbid = Undefined,
        defaultAlias = Present \<lparr>name = Present ''Alice''\<rparr>, identifierSet = Undefined\<rparr>)
     ''Unnamed''
     (\<lambda>t. ''Edit '' @ (case Get t ''name'' of Own v \<Rightarrow> ToString v | _ \<Rightarrow> ''undefined''))
   = ''Edit Alice''
   \<and> createEntityPageTitle Null ''Unnamed''
       (\<lambda>t. ''Edit '' @ (case Get t ''name'' of Own v \<Rightarrow> ToString v | _ \<Rightarrow> ''undefined''))
   = ''Unnamed''"
  using createEntityPageTitle_result
    [of "Present \<lparr>type = Undefined, bbid = Undefined,
           defaultAlias = Present \<lparr>name = Present ''Alice''\<rparr>, identifierSet = Undefined\<rparr>"]
    createEntityPageTitle_result [of Null]
  by (simp add: display_name_def Get_def)

text \<open>
  Claim C9. When the entity is there and has a default alias whose name is the empty
  string, \<^verbatim>\<open>createEntityPageTitle\<close> returns the fallback title, whatever the template
  function is.
\<close>

theorem createEntityPageTitle_empty_name:
  "defaultAlias e = Present a \<Longrightarrow> name a = Present [] \<Longrightarrow>
   createEntityPageTitle (Present e) titleForUnnamed templateForNamed = titleForUnnamed"
  by (simp add: createEntityPageTitle_def)

theorem createEntityPageTitle_empty_name_witness:
  "createEntityPageTitle
     (Present \<lparr>type = Present ''Work'', bbid = Undefined,
        defaultAlias = Present \<lparr>name = Present []\<rparr>, identifierSet = Undefined\<rparr>)
     ''Unnamed''
     (\<lambda>t. ''Edit '' @ (case Get t ''name'' of Own v \<Rightarrow> ToString v | _ \<Rightarrow> ''undefined''))
   = ''Unnamed''"
  using createEntityPageTitle_empty_name
    [of "\<lparr>type = Present ''Work'', bbid = Undefined,
          defaultAlias = Present \<lparr>name = Present []\<rparr>, identifierSet = Undefined\<rparr>"
        "\<lparr>name = Present []\<rparr>"]
  by simp


section \<open>Entity links: claims C7 and C10\<close>

text \<open>
  Claim C7. For every entity whose \<^verbatim>\<open>type\<close> and \<^verbatim>\<open>bbid\<close> are populated,
  \<^verbatim>\<open>getEntityLink\<close> returns a slash, the type in lower case, a slash and the bbid. The
  two strings are arbitrary: neither is validated.
\<close>

theorem getEntityLink_format:
  "type entity = Present t \<Longrightarrow> bbid entity = Present b \<Longrightarrow>
   getEntityLink entity = Inr (''/'' @ toLowerCase t @ ''/'' @ b)"
  by (simp add: getEntityLink_def)

theorem getEntityLink_format_witness:
  "getEntityLink
     \<lparr>type = Present ''Work'', bbid = Present ''123e4567-e89b-12d3-a456-426614174000'',
      defaultAlias = Undefined, identifierSet = Undefined\<rparr>
   = Inr ''/work/123e4567-e89b-12d3-a456-426614174000''"
  using getEntityLink_format
    [of "\<lparr>type = Present ''Work'',
          bbid = Present ''123e4567-e89b-12d3-a456-426614174000'',
          defaultAlias = Undefined, identifierSet = Undefined\<rparr>"
        "''Work''" "''123e4567-e89b-12d3-a456-426614174000''"]
  by (simp add: toLowerCase_Work)

text \<open>
  Claim C10. The entity URL that \<^verbatim>\<open>EntityDeletionForm\<close> computes in \<^verbatim>\<open>render\<close>, which is
  the target of its Cancel button and the stem of its delete-handler URL, is what
  \<^verbatim>\<open>getEntityLink\<close> returns for the same entity; where one throws, so does the other.
\<close>

theorem EntityDeletionForm_entityUrl_getEntityLink:
  "map_sum id entityUrl (EntityDeletionForm_render entity) = getEntityLink entity
   \<and> map_sum id cancelHref (EntityDeletionForm_render entity) = getEntityLink entity
   \<and> map_sum id deleteUrl (EntityDeletionForm_render entity) =
       map_sum id (\<lambda>url. url @ ''/delete/handler'') (getEntityLink entity)"
  by (simp add: EntityDeletionForm_render_def getEntityLink_def Let_def
      split: nullable.splits)

end
